theory Spec2Isabelle
  imports Complex_Main "HOL-Library.Multiset" "HOL-Library.Log_Nat"
begin

section \<open>EEG mood classifier\<close>

text \<open>
  A shallow embedding of \<^verbatim>\<open>EEG.py\<close>. A reading is a real number, meant to be one
  that a 64-bit float holds. The arithmetic of \<^verbatim>\<open>np.mean\<close> is modelled with its
  rounding: every sum and the final quotient are rounded to the nearest 64-bit float,
  and a result too large for the format is an infinity.
\<close>

subsection \<open>64-bit floating point values\<close>

text \<open>A float is a real number, an infinity or not-a-number. Zero has no sign here.\<close>

datatype npfloat = Num real | PInf | NInf | NaN

text \<open>The binary exponent of a non-zero real: \<open>2 ^ exponent x \<le> \<bar>x\<bar> < 2 ^ (exponent x + 1)\<close>.\<close>

definition exponent :: "real \<Rightarrow> int" where
  "exponent x =
     (if 1 \<le> \<bar>x\<bar> then bitlen \<lfloor>\<bar>x\<bar>\<rfloor> - 1 else - bitlen (\<lceil>1 / \<bar>x\<bar>\<rceil> - 1))"

definition pow2 :: "int \<Rightarrow> real" where
  "pow2 k = (if 0 \<le> k then 2 ^ nat k else 1 / 2 ^ nat (- k))"

text \<open>The nearest integer; a value halfway between two integers goes to the even one.\<close>

definition round_half_even :: "real \<Rightarrow> int" where
  "round_half_even q =
     (let f = \<lfloor>q\<rfloor>; d = q - of_int f
      in if d < 1 / 2 then f else if 1 / 2 < d then f + 1 else if even f then f else f + 1)"

text \<open>
  Rounding to the nearest 64-bit float, ties to even: 53 significant bits, the smallest
  exponent is -1022 (below it the spacing stays \<open>2 ^ -1074\<close>), and a rounded magnitude of
  \<open>2 ^ 1024\<close> or more overflows.
\<close>

definition round64 :: "real \<Rightarrow> npfloat" where
  "round64 x =
     (if x = 0 then Num 0
      else
        (let ulp = pow2 (max (exponent x) (- 1022) - 52);
             r = ulp * of_int (round_half_even (x / ulp))
         in if 2 ^ 1024 \<le> r then PInf else if r \<le> - (2 ^ 1024) then NInf else Num r))"

text \<open>The reals that a 64-bit float holds.\<close>

definition float64 :: "real \<Rightarrow> bool" where
  "float64 x = (round64 x = Num x)"

text \<open>Addition of two floats.\<close>

fun fadd :: "npfloat \<Rightarrow> npfloat \<Rightarrow> npfloat" where
  "fadd (Num x) (Num y) = round64 (x + y)"
| "fadd NaN y = NaN"
| "fadd x NaN = NaN"
| "fadd PInf NInf = NaN"
| "fadd NInf PInf = NaN"
| "fadd PInf y = PInf"
| "fadd x PInf = PInf"
| "fadd NInf y = NInf"
| "fadd x NInf = NInf"

text \<open>Division of a float by the number of elements, a positive count.\<close>

fun fdiv_count :: "npfloat \<Rightarrow> nat \<Rightarrow> npfloat" where
  "fdiv_count (Num x) n = round64 (x / real n)"
| "fdiv_count y n = y"

subsection \<open>The classifier\<close>

text \<open>
  \<^verbatim>\<open>np.mean\<close> adds the elements with numpy's pairwise summation and divides the sum by
  their number. The summation adds fewer than 8 elements from left to right. Up to 128
  elements are added with 8 running sums, which take the elements in turn, 8 at a
  time; the running sums are then added in pairs and the elements left over are added
  one by one. A longer array is cut in two near the middle, at a multiple of 8, and the
  sums of the two parts are added.
\<close>

function unrolled :: "npfloat list \<Rightarrow> npfloat list \<Rightarrow> npfloat list \<times> npfloat list" where
  "unrolled r rest =
     (if 8 \<le> length rest then unrolled (map2 fadd r (take 8 rest)) (drop 8 rest)
      else (r, rest))"
  by pat_completeness auto
termination
  by (relation "measure (\<lambda>(r, rest). length rest)") auto

declare unrolled.simps [simp del]

function pairwise_sum :: "npfloat list \<Rightarrow> npfloat" where
  "pairwise_sum a =
     (let n = length a in
      if n < 8 then foldl fadd (Num 0) a
      else if n \<le> 128 then
        (case unrolled (take 8 a) (drop 8 a) of (r, rest) \<Rightarrow>
           foldl fadd
             (fadd (fadd (fadd (r ! 0) (r ! 1)) (fadd (r ! 2) (r ! 3)))
                   (fadd (fadd (r ! 4) (r ! 5)) (fadd (r ! 6) (r ! 7))))
             rest)
      else
        (let n2 = n div 2 - (n div 2) mod 8
         in fadd (pairwise_sum (take n2 a)) (pairwise_sum (drop n2 a))))"
  by pat_completeness auto
termination
  by (relation "measure length") auto

declare pairwise_sum.simps [simp del]

text \<open>
  For an empty array the quotient is \<^verbatim>\<open>0.0 / 0\<close>, which numpy evaluates to \<^verbatim>\<open>nan\<close> with
  a warning, not an exception.
\<close>

definition np_mean :: "real list \<Rightarrow> npfloat" where
  "np_mean a = (if a = [] then NaN else fdiv_count (pairwise_sum (map Num a)) (length a))"

text \<open>
  Comparing a float with a number. Every ordered comparison with \<^verbatim>\<open>nan\<close> is false.
\<close>

fun np_gt :: "npfloat \<Rightarrow> real \<Rightarrow> bool" where
  "np_gt (Num x) y = (x > y)"
| "np_gt PInf y = True"
| "np_gt NInf y = False"
| "np_gt NaN y = False"

fun np_lt :: "npfloat \<Rightarrow> real \<Rightarrow> bool" where
  "np_lt (Num x) y = (x < y)"
| "np_lt PInf y = False"
| "np_lt NInf y = True"
| "np_lt NaN y = False"

definition predict_mood :: "real list \<Rightarrow> string \<times> string" where
  "predict_mood eeg_values =
     (let avg = np_mean eeg_values in
      if np_gt avg 2 then
        (''Happy'', ''Brain activity shows high energy, suggesting a happy mood.'')
      else if np_lt avg (- 2) then
        (''Sad'', ''Low energy detected, may indicate sadness.'')
      else
        (''Neutral'', ''Balanced activity, likely a neutral mood.''))"

subsection \<open>Exceptions, widgets and outcomes\<close>

text \<open>
  The exceptions of the model are instances of Python's \<^verbatim>\<open>Exception\<close>; each carries
  the text that \<^verbatim>\<open>str(e)\<close> returns.
\<close>

datatype py_exception = ValueError string | KeyError string | OtherException string

fun str :: "py_exception \<Rightarrow> string" where
  "str (ValueError m) = m"
| "str (KeyError m) = m"
| "str (OtherException m) = m"

text \<open>
  The text widgets of \<^verbatim>\<open>EEGApp\<close> that the handlers write, and the lines printed to
  standard output.
\<close>

record app_state =
  eeg_input :: string
  result_label :: string
  network_info_label :: string
  stdout :: "string list"

text \<open>
  A method either returns, or raises with the widgets as they were at that moment.
\<close>

datatype outcome = Returned app_state | Raised py_exception app_state

text \<open>Evaluating a list of computations in order stops at the first one that raises.\<close>

fun collect :: "('e + 'a) list \<Rightarrow> 'e + 'a list" where
  "collect [] = Inr []"
| "collect (Inl e # rs) = Inl e"
| "collect (Inr x # rs) = (case collect rs of Inl e \<Rightarrow> Inl e | Inr xs \<Rightarrow> Inr (x # xs))"

subsection \<open>The animation\<close>

text \<open>\<^verbatim>\<open>np.linspace(start, stop, num)\<close>: \<^verbatim>\<open>num\<close> evenly spaced samples, both ends included.\<close>

definition np_linspace :: "real \<Rightarrow> real \<Rightarrow> nat \<Rightarrow> real list" where
  "np_linspace start stop num =
     (if num = 1 then [start]
      else map (\<lambda>i. start + real i * ((stop - start) / real (num - 1))) [0..<num])"

text \<open>\<^verbatim>\<open>np.arange(a, b)\<close> on integers.\<close>

definition np_arange :: "nat \<Rightarrow> nat \<Rightarrow> nat list" where
  "np_arange a b = [a..<b]"

text \<open>
  \<^verbatim>\<open>ax.plot(x, y)\<close> raises a \<^verbatim>\<open>ValueError\<close> when the two arrays differ in length;
  otherwise the axes show the line through the points.
\<close>

type_synonym line2d = "real list \<times> real list"

definition ax_plot :: "real list \<Rightarrow> real list \<Rightarrow> py_exception + line2d" where
  "ax_plot x y =
     (if length x \<noteq> length y then Inl (ValueError ''x and y must have same first dimension'')
      else Inr (x, y))"

text \<open>
  The frame callback of \<^verbatim>\<open>animate\<close>. The result is the line drawn on the left axes.
  The random network that the callback draws on the right axes has no influence on
  the control flow and is not part of the model.
\<close>

definition update :: "real list \<Rightarrow> nat \<Rightarrow> py_exception + line2d" where
  "update eeg_values frame = ax_plot (np_linspace 0 (real frame) frame) (take frame eeg_values)"

text \<open>The \<^verbatim>\<open>frames\<close> argument given to \<^verbatim>\<open>FuncAnimation\<close>.\<close>

definition frames :: "real list \<Rightarrow> nat list" where
  "frames eeg_values = np_arange 1 (length eeg_values + 1)"

text \<open>
  \<^verbatim>\<open>ani.save\<close> calls the frame callback once for each element of \<^verbatim>\<open>frames\<close>, in order,
  and hands the drawn frames to the writer. Whether the writer succeeds depends on the
  installation and the file system, so the writer is a parameter.
\<close>

definition ani_save :: "(line2d list \<Rightarrow> py_exception + unit) \<Rightarrow> real list \<Rightarrow> py_exception + unit" where
  "ani_save writer eeg_values =
     (case collect (map (update eeg_values) (frames eeg_values)) of
        Inl e \<Rightarrow> Inl e
      | Inr drawn \<Rightarrow> writer drawn)"

definition animate :: "(line2d list \<Rightarrow> py_exception + unit) \<Rightarrow> real list \<Rightarrow> app_state \<Rightarrow> outcome" where
  "animate writer eeg_values st =
     (case ani_save writer eeg_values of
        Inr _ \<Rightarrow> Returned (st\<lparr>stdout := stdout st @ [''Animation saved as GIF.'']\<rparr>)
      | Inl e \<Rightarrow> Returned (st\<lparr>stdout := stdout st @ [''Could not save animation: '' @ str e]\<rparr>))"

definition create_animation :: "(line2d list \<Rightarrow> py_exception + unit) \<Rightarrow> real list \<Rightarrow> app_state \<Rightarrow> outcome" where
  "create_animation writer eeg_values st =
     (let time = np_linspace 0 (real (length eeg_values)) (length eeg_values) in
      case ax_plot time eeg_values of
        Inl e \<Rightarrow> Raised e st
      | Inr _ \<Rightarrow> animate writer eeg_values st)"

subsection \<open>Manual entry\<close>

text \<open>\<^verbatim>\<open>s.split(',')\<close>: the pieces between the commas; the empty string gives one empty piece.\<close>

fun split_comma :: "string \<Rightarrow> string list" where
  "split_comma [] = [[]]"
| "split_comma (c # cs) =
     (if c = CHR '','' then [] # split_comma cs
      else (case split_comma cs of t # ts \<Rightarrow> (c # t) # ts | [] \<Rightarrow> [[c]]))"

text \<open>
  The builtin \<^verbatim>\<open>float\<close> is a parameter \<open>py_float\<close>: \<open>None\<close> where Python raises
  \<^verbatim>\<open>ValueError\<close>.
\<close>

definition to_float :: "(string \<Rightarrow> real option) \<Rightarrow> string \<Rightarrow> py_exception + real" where
  "to_float py_float x =
     (case py_float x of
        None \<Rightarrow> Inl (ValueError (''could not convert string to float: '' @ x))
      | Some v \<Rightarrow> Inr v)"

text \<open>The bare \<^verbatim>\<open>except:\<close> clause of \<^verbatim>\<open>on_button_click\<close>.\<close>

definition invalid_input :: "app_state \<Rightarrow> app_state" where
  "invalid_input st =
     st\<lparr>result_label := ''Invalid EEG input.'', network_info_label := ''Animation failed.''\<rparr>"

definition on_button_click ::
  "(string \<Rightarrow> real option) \<Rightarrow> (line2d list \<Rightarrow> py_exception + unit) \<Rightarrow> app_state \<Rightarrow> outcome" where
  "on_button_click py_float writer st =
     (case collect (map (to_float py_float) (split_comma (eeg_input st))) of
        Inl e \<Rightarrow> Returned (invalid_input st)
      | Inr eeg_values \<Rightarrow>
          (case predict_mood eeg_values of (mood, info) \<Rightarrow>
             (case create_animation writer eeg_values
                     (st\<lparr>result_label := ''Mood: '' @ mood, network_info_label := info\<rparr>) of
                Raised e st' \<Rightarrow> Returned (invalid_input st')
              | Returned st' \<Rightarrow> Returned st')))"

subsection \<open>Loading a file\<close>

text \<open>
  A pandas data frame as \<^verbatim>\<open>load_csv_file\<close> sees it: the column labels and the cells,
  row by row. In a frame that \<^verbatim>\<open>pd.read_csv\<close> returns every row has one cell for each
  column.
\<close>

record 'a data_frame =
  columns :: "string list"
  cells :: "'a list list"

definition well_formed :: "'a data_frame \<Rightarrow> bool" where
  "well_formed df = list_all (\<lambda>row. length row = length (columns df)) (cells df)"

text \<open>
  \<^verbatim>\<open>df.drop(name, axis=1)\<close>: a frame without the columns labelled \<open>name\<close>; a
  \<^verbatim>\<open>KeyError\<close> when there is no such column.
\<close>

definition df_drop :: "string \<Rightarrow> 'a data_frame \<Rightarrow> py_exception + 'a data_frame" where
  "df_drop name df =
     (if name \<notin> set (columns df) then Inl (KeyError (name @ '' not found in axis''))
      else Inr \<lparr>columns = filter (\<lambda>c. c \<noteq> name) (columns df),
                cells = map (\<lambda>row. map snd (filter (\<lambda>(c, v). c \<noteq> name) (zip (columns df) row)))
                          (cells df)\<rparr>)"

text \<open>\<^verbatim>\<open>df.values.flatten()\<close>: the cells in row-major order.\<close>

definition flatten :: "'a data_frame \<Rightarrow> 'a list" where
  "flatten df = concat (cells df)"

text \<open>\<^verbatim>\<open>sep.join(xs)\<close>\<close>

fun join :: "string \<Rightarrow> string list \<Rightarrow> string" where
  "join sep [] = []"
| "join sep [x] = x"
| "join sep (x # y # ys) = x @ sep @ join sep (y # ys)"

text \<open>
  The first three statements of the \<^verbatim>\<open>try\<close> block of \<^verbatim>\<open>load_csv_file\<close>, up to the
  binding of \<^verbatim>\<open>values\<close>. Reading the file is a parameter \<open>read_csv\<close>, which gives the
  frame or the exception that \<^verbatim>\<open>pd.read_csv\<close> raises.
\<close>

definition csv_values :: "(string \<Rightarrow> py_exception + 'a data_frame) \<Rightarrow> string \<Rightarrow> py_exception + 'a list" where
  "csv_values read_csv file_path =
     (case read_csv file_path of
        Inl e \<Rightarrow> Inl e
      | Inr df \<Rightarrow>
          (case (if ''label'' \<in> set (columns df) then df_drop ''label'' df else Inr df) of
             Inl e \<Rightarrow> Inl e
           | Inr df' \<Rightarrow> Inr (take 100 (flatten df'))))"

text \<open>
  \<open>file_path\<close> is what the file dialog returned (empty when the dialog was cancelled),
  \<open>str_cell\<close> is \<^verbatim>\<open>str\<close> on a cell.
\<close>

definition load_csv_file ::
  "string \<Rightarrow> (string \<Rightarrow> py_exception + 'a data_frame) \<Rightarrow> ('a \<Rightarrow> string) \<Rightarrow> app_state \<Rightarrow> outcome" where
  "load_csv_file file_path read_csv str_cell st =
     (if file_path \<noteq> [] then
        (case csv_values read_csv file_path of
           Inr vals \<Rightarrow> Returned (st\<lparr>eeg_input := join '', '' (map str_cell vals)\<rparr>)
         | Inl e \<Rightarrow>
             Returned (st\<lparr>result_label := ''Could not read CSV file.'',
                          network_info_label := str e\<rparr>))
      else Returned st)"

section \<open>Properties\<close>

subsection \<open>Auxiliary facts\<close>

lemma pairwise_sum_short: "length a < 8 \<Longrightarrow> pairwise_sum a = foldl fadd (Num 0) a"
  by (subst pairwise_sum.simps) simp

lemma np_mean_short:
  "a \<noteq> [] \<Longrightarrow> length a < 8 \<Longrightarrow>
     np_mean a = fdiv_count (foldl fadd (Num 0) (map Num a)) (length a)"
  by (simp add: np_mean_def pairwise_sum_short)

lemma np_gt_not_lt: "np_lt avg (- 2) \<Longrightarrow> \<not> np_gt avg 2"
  by (cases avg) simp_all

lemma bitlen_small:
  "bitlen 1 = 1" "bitlen 2 = 2" "bitlen 3 = 2" "bitlen 4 = 3" "bitlen 6 = 3" "bitlen 7 = 3"
  "bitlen 9 = 4"
  by code_simp+

lemma bitlen_large: "bitlen 10000000000000000 = 54" "bitlen 10000000000000006 = 54"
  by code_simp+

lemmas round64_eval = round64_def exponent_def pow2_def round_half_even_def Let_def

lemma round64_0: "round64 0 = Num 0"
  by (simp add: round64_def)

lemma round64_small:
  "round64 2 = Num 2" "round64 3 = Num 3" "round64 4 = Num 4" "round64 6 = Num 6"
  "round64 7 = Num 7" "round64 9 = Num 9" "round64 (13 / 2) = Num (13 / 2)"
  by (simp_all add: round64_eval bitlen_small)

lemma round64_next_after_2:
  "round64 (4503599627370497 / 2251799813685248) = Num (4503599627370497 / 2251799813685248)"
  by (simp add: round64_eval bitlen_small)

lemma round64_tie_at_6: "round64 (13510798882111489 / 2251799813685248) = Num 6"
  by (simp add: round64_eval bitlen_small)

lemma round64_large:
  "round64 10000000000000000 = Num 10000000000000000"
  "round64 (- 10000000000000000) = Num (- 10000000000000000)"
  "round64 (20000000000000013 / 2) = Num 10000000000000006"
  by (simp_all add: round64_eval bitlen_large)

lemma round64_13_6: "round64 (13 / 6) = Num (4878899596318037 / 2251799813685248)"
  by (simp add: round64_eval bitlen_small)

lemma np_mean_2_2_2: "np_mean [2, 2, 2] = Num 2"
  by (simp add: np_mean_short round64_small)

lemma np_mean_3_3_3: "np_mean [3, 3, 3] = Num 3"
  by (simp add: np_mean_short round64_small)

lemma np_mean_2_4_3: "np_mean [2, 4, 3] = Num 3"
  by (simp add: np_mean_short round64_small)

lemma np_mean_4_3_2: "np_mean [4, 3, 2] = Num 3"
  by (simp add: np_mean_short round64_small)

lemma np_mean_above_2: "np_mean [2, 2, 4503599627370497 / 2251799813685248] = Num 2"
  by (simp add: np_mean_short round64_small round64_tie_at_6)

lemma np_mean_large_first:
  "np_mean [10000000000000000, 13 / 2, - 10000000000000000] = Num 2"
  by (simp add: np_mean_short round64_small round64_large)

lemma np_mean_large_cancelled:
  "np_mean [10000000000000000, - 10000000000000000, 13 / 2]
     = Num (4878899596318037 / 2251799813685248)"
  by (simp add: np_mean_short round64_0 round64_small round64_large round64_13_6)

lemma length_np_linspace: "length (np_linspace start stop num) = num"
  by (simp add: np_linspace_def)

lemma collect_all_Inr: "collect (map Inr xs) = Inr xs"
  by (induction xs) simp_all

lemma collect_Inl:
  "\<exists>r \<in> set rs. \<exists>e. r = Inl e \<Longrightarrow> \<exists>e. collect rs = Inl e"
proof (induction rs rule: collect.induct)
  case 1
  then show ?case by simp
next
  case (2 e rs)
  then show ?case by simp
next
  case (3 x rs)
  then have "\<exists>e. collect rs = Inl e" by auto
  then show ?case by auto
qed

lemma frames_upt: "frames eeg_values = [1..<Suc (length eeg_values)]"
  by (simp add: frames_def np_arange_def)

lemma update_in_range:
  "frame \<le> length eeg_values \<Longrightarrow>
     update eeg_values frame = Inr (np_linspace 0 (real frame) frame, take frame eeg_values)"
  by (simp add: update_def ax_plot_def length_np_linspace)

lemma collect_updates:
  "collect (map (update eeg_values) (frames eeg_values))
     = Inr (map (\<lambda>f. (np_linspace 0 (real f) f, take f eeg_values)) (frames eeg_values))"
proof -
  have "map (update eeg_values) (frames eeg_values)
          = map Inr (map (\<lambda>f. (np_linspace 0 (real f) f, take f eeg_values)) (frames eeg_values))"
    unfolding frames_upt by (auto simp: update_in_range)
  then show ?thesis by (simp only: collect_all_Inr)
qed

lemma create_animation_animate:
  "create_animation writer eeg_values st = animate writer eeg_values st"
  by (simp add: create_animation_def ax_plot_def length_np_linspace)

lemma to_float_collect_Inl:
  assumes "\<exists>t \<in> set ts. py_float t = None"
  shows "\<exists>e. collect (map (to_float py_float) ts) = Inl e"
proof (rule collect_Inl)
  from assms obtain t where t: "t \<in> set ts" "py_float t = None" by blast
  then have "to_float py_float t \<in> set (map (to_float py_float) ts)" by simp
  moreover have "\<exists>e. to_float py_float t = Inl e"
    using t by (simp add: to_float_def)
  ultimately show "\<exists>r \<in> set (map (to_float py_float) ts). \<exists>e. r = Inl e" by blast
qed

lemma load_csv_file_cases:
  "load_csv_file file_path read_csv str_cell st = Returned st' \<Longrightarrow>
     eeg_input st' = eeg_input st
     \<or> (\<exists>vals. csv_values read_csv file_path = Inr vals
              \<and> eeg_input st' = join '', '' (map str_cell vals))"
  by (auto simp: load_csv_file_def split: if_splits sum.splits)

lemma filter_zip_nths:
  "length cols = length row \<Longrightarrow>
     map snd (filter (\<lambda>(c, v). c \<noteq> name) (zip cols row)) = nths row {i. cols ! i \<noteq> name}"
  by (induction cols row rule: list_induct2) (simp_all add: nths_Cons)

lemma nths_no_label:
  assumes "length cols = length row" and "name \<notin> set cols"
  shows "nths row {i. cols ! i \<noteq> name} = row"
proof -
  have "filter (\<lambda>(c, v). c \<noteq> name) (zip cols row) = zip cols row"
    using assms(2) by (auto simp: filter_id_conv dest: set_zip_leftD)
  then have "map snd (filter (\<lambda>(c, v). c \<noteq> name) (zip cols row)) = row"
    using assms(1) by simp
  then show ?thesis
    using filter_zip_nths [OF assms(1), of name] by simp
qed

lemma well_formed_row:
  "well_formed df \<Longrightarrow> row \<in> set (cells df) \<Longrightarrow> length (columns df) = length row"
  by (simp add: well_formed_def list_all_iff)

lemma csv_values_read:
  assumes "read_csv file_path = Inr df" and "well_formed df"
  shows "csv_values read_csv file_path
           = Inr (take 100 (concat (map (\<lambda>row. nths row {i. columns df ! i \<noteq> ''label''}) (cells df))))"
proof (cases "''label'' \<in> set (columns df)")
  case True
  have eq: "map (\<lambda>row. map snd (filter (\<lambda>(c, v). c \<noteq> ''label'') (zip (columns df) row))) (cells df)
          = map (\<lambda>row. nths row {i. columns df ! i \<noteq> ''label''}) (cells df)"
    using assms(2) by (auto simp: filter_zip_nths well_formed_row)
  show ?thesis
    using assms(1) True by (simp add: csv_values_def df_drop_def flatten_def eq)
next
  case False
  have eq: "map (\<lambda>row. nths row {i. columns df ! i \<noteq> ''label''}) (cells df) = cells df"
    using assms(2) False by (auto simp: map_idI nths_no_label well_formed_row)
  show ?thesis
    using assms(1) False by (simp add: csv_values_def flatten_def eq)
qed

subsection \<open>The classifier\<close>

text \<open>
  C1. For a non-empty sequence of readings, \<open>predict_mood\<close> classifies the float \<open>avg\<close>
  that \<^verbatim>\<open>np.mean\<close> computes: the Happy pair when \<open>avg > 2\<close>, the Sad pair when
  \<open>avg < -2\<close>, the Neutral pair otherwise. Whenever \<open>avg\<close> is the exact arithmetic mean,
  the result is Happy for a mean above 2, Sad for a mean below -2 and Neutral for a mean
  from -2 to 2, both boundaries included.
\<close>

theorem predict_mood_float_contract:
  assumes "eeg_values \<noteq> []"
  shows "(np_gt (np_mean eeg_values) 2 \<longrightarrow>
           predict_mood eeg_values =
             (''Happy'', ''Brain activity shows high energy, suggesting a happy mood.''))
       \<and> (np_lt (np_mean eeg_values) (- 2) \<longrightarrow>
           predict_mood eeg_values = (''Sad'', ''Low energy detected, may indicate sadness.''))
       \<and> (\<not> np_gt (np_mean eeg_values) 2 \<and> \<not> np_lt (np_mean eeg_values) (- 2) \<longrightarrow>
           predict_mood eeg_values = (''Neutral'', ''Balanced activity, likely a neutral mood.''))
       \<and> (np_mean eeg_values = Num (sum_list eeg_values / real (length eeg_values)) \<longrightarrow>
            (sum_list eeg_values / real (length eeg_values) > 2 \<longrightarrow>
               predict_mood eeg_values =
                 (''Happy'', ''Brain activity shows high energy, suggesting a happy mood.''))
          \<and> (sum_list eeg_values / real (length eeg_values) < - 2 \<longrightarrow>
               predict_mood eeg_values = (''Sad'', ''Low energy detected, may indicate sadness.''))
          \<and> (- 2 \<le> sum_list eeg_values / real (length eeg_values)
                \<and> sum_list eeg_values / real (length eeg_values) \<le> 2 \<longrightarrow>
               predict_mood eeg_values =
                 (''Neutral'', ''Balanced activity, likely a neutral mood.'')))"
proof -
  have "np_lt (np_mean eeg_values) (- 2) \<Longrightarrow> \<not> np_gt (np_mean eeg_values) 2"
    by (rule np_gt_not_lt)
  then show ?thesis
    by (auto simp: predict_mood_def)
qed

text \<open>
  The examples of the specification: three readings of 2 are Neutral, with the float
  mean equal to the exact mean, and three readings of 3 are Happy.
\<close>

theorem predict_mood_float_contract_witness:
  "[2, 2, 2 :: real] \<noteq> []
   \<and> np_mean [2, 2, 2] = Num (sum_list [2, 2, 2] / real (length [2, 2, 2 :: real]))
   \<and> - 2 \<le> sum_list [2, 2, 2 :: real] / real (length [2, 2, 2 :: real])
   \<and> sum_list [2, 2, 2 :: real] / real (length [2, 2, 2 :: real]) \<le> 2
   \<and> predict_mood [2, 2, 2] = (''Neutral'', ''Balanced activity, likely a neutral mood.'')
   \<and> [3, 3, 3 :: real] \<noteq> []
   \<and> np_gt (np_mean [3, 3, 3]) 2
   \<and> predict_mood [3, 3, 3]
       = (''Happy'', ''Brain activity shows high energy, suggesting a happy mood.'')"
  using predict_mood_float_contract [of "[2, 2, 2]"] predict_mood_float_contract [of "[3, 3, 3]"]
  by (simp add: np_mean_2_2_2 np_mean_3_3_3)

text \<open>
  With the exact mean in place of the float, the contract fails. The readings 2, 2 and
  the next float after 2 have an exact mean above 2; their float sum is rounded to 6,
  the float mean is 2, and the result is Neutral, not Happy.
\<close>

theorem predict_mood_exact_mean_counterexample:
  "float64 2 \<and> float64 (4503599627370497 / 2251799813685248)
   \<and> 2 < sum_list [2, 2, 4503599627370497 / 2251799813685248]
           / real (length [2, 2, 4503599627370497 / 2251799813685248 :: real])
   \<and> predict_mood [2, 2, 4503599627370497 / 2251799813685248]
       = (''Neutral'', ''Balanced activity, likely a neutral mood.'')
   \<and> predict_mood [2, 2, 4503599627370497 / 2251799813685248]
       \<noteq> (''Happy'', ''Brain activity shows high energy, suggesting a happy mood.'')"
  by (simp add: float64_def round64_small round64_next_after_2 predict_mood_def np_mean_above_2)

text \<open>
  C2. The result of \<open>predict_mood\<close> is determined by the float that \<^verbatim>\<open>np.mean\<close> computes:
  two sequences with the same float mean get the same mood and explanation. Two
  non-empty sequences with the same exact mean, and two sequences that are permutations
  of each other, get the same result whenever the float mean of each is its exact mean.
\<close>

theorem predict_mood_depends_on_np_mean:
  "(np_mean xs = np_mean ys \<longrightarrow> predict_mood xs = predict_mood ys)
   \<and> (xs \<noteq> [] \<and> ys \<noteq> []
        \<and> np_mean xs = Num (sum_list xs / real (length xs))
        \<and> np_mean ys = Num (sum_list ys / real (length ys))
        \<and> sum_list xs / real (length xs) = sum_list ys / real (length ys)
      \<longrightarrow> predict_mood xs = predict_mood ys)
   \<and> (mset xs = mset ys
        \<and> np_mean xs = Num (sum_list xs / real (length xs))
        \<and> np_mean ys = Num (sum_list ys / real (length ys))
      \<longrightarrow> predict_mood xs = predict_mood ys)"
proof (intro conjI impI)
  assume "np_mean xs = np_mean ys"
  then show "predict_mood xs = predict_mood ys"
    by (simp add: predict_mood_def)
next
  assume "xs \<noteq> [] \<and> ys \<noteq> []
        \<and> np_mean xs = Num (sum_list xs / real (length xs))
        \<and> np_mean ys = Num (sum_list ys / real (length ys))
        \<and> sum_list xs / real (length xs) = sum_list ys / real (length ys)"
  then have "np_mean xs = np_mean ys" by simp
  then show "predict_mood xs = predict_mood ys"
    by (simp add: predict_mood_def)
next
  assume a: "mset xs = mset ys
        \<and> np_mean xs = Num (sum_list xs / real (length xs))
        \<and> np_mean ys = Num (sum_list ys / real (length ys))"
  then have "sum_list xs = sum_list ys"
    by (metis sum_mset_sum_list)
  moreover have "length xs = length ys"
    using a by (metis mset_eq_length)
  ultimately have "np_mean xs = np_mean ys"
    using a by simp
  then show "predict_mood xs = predict_mood ys"
    by (simp add: predict_mood_def)
qed

theorem predict_mood_depends_on_np_mean_witness:
  "np_mean [2, 2, 4503599627370497 / 2251799813685248] = np_mean [2, 2, 2]
   \<and> predict_mood [2, 2, 4503599627370497 / 2251799813685248] = predict_mood [2, 2, 2]
   \<and> mset [2, 4, 3 :: real] = mset [4, 3, 2]
   \<and> np_mean [2, 4, 3] = Num (sum_list [2, 4, 3] / real (length [2, 4, 3 :: real]))
   \<and> np_mean [4, 3, 2] = Num (sum_list [4, 3, 2] / real (length [4, 3, 2 :: real]))
   \<and> predict_mood [2, 4, 3] = predict_mood [4, 3, 2]"
  using predict_mood_depends_on_np_mean [of "[2, 2, 4503599627370497 / 2251799813685248]" "[2, 2, 2]"]
    predict_mood_depends_on_np_mean [of "[2, 4, 3]" "[4, 3, 2]"]
  by (simp add: np_mean_above_2 np_mean_2_2_2 np_mean_2_4_3 np_mean_4_3_2)

text \<open>
  Without the condition on the float means, permutations can differ. The readings
  \<open>10 ^ 16\<close>, 6.5 and \<open>- 10 ^ 16\<close> are Neutral in this order, as the sum of the first two
  is rounded to \<open>10 ^ 16 + 6\<close>, and Happy when the two large readings come first.
\<close>

theorem predict_mood_permutation_counterexample:
  "float64 10000000000000000 \<and> float64 (13 / 2) \<and> float64 (- 10000000000000000)
   \<and> mset [10000000000000000, 13 / 2, - 10000000000000000 :: real]
       = mset [10000000000000000, - 10000000000000000, 13 / 2]
   \<and> sum_list [10000000000000000, 13 / 2, - 10000000000000000 :: real]
         / real (length [10000000000000000, 13 / 2, - 10000000000000000 :: real])
       = sum_list [10000000000000000, - 10000000000000000, 13 / 2]
         / real (length [10000000000000000, - 10000000000000000, 13 / 2 :: real])
   \<and> predict_mood [10000000000000000, 13 / 2, - 10000000000000000]
       = (''Neutral'', ''Balanced activity, likely a neutral mood.'')
   \<and> predict_mood [10000000000000000, - 10000000000000000, 13 / 2]
       = (''Happy'', ''Brain activity shows high energy, suggesting a happy mood.'')"
  by (simp add: float64_def round64_small round64_large predict_mood_def
      np_mean_large_first np_mean_large_cancelled)

text \<open>
  C9. For the empty sequence the mean is not a number, neither comparison holds, and
  \<open>predict_mood\<close> returns the Neutral pair.
\<close>

theorem predict_mood_empty:
  "predict_mood [] = (''Neutral'', ''Balanced activity, likely a neutral mood.'')
   \<and> \<not> np_gt (np_mean []) 2 \<and> \<not> np_lt (np_mean []) (- 2)"
  by (simp add: predict_mood_def np_mean_def)

subsection \<open>The animation\<close>

text \<open>
  C4. The frame indices of the animation are 1, 2, ..., up to the number of readings, so
  there are as many frames as readings; at frame \<open>f\<close> the callback draws the line
  through exactly the first \<open>f\<close> readings.
\<close>

theorem animation_frames:
  "frames eeg_values = map Suc [0..<length eeg_values]
   \<and> length (frames eeg_values) = length eeg_values
   \<and> set (frames eeg_values) = {1..length eeg_values}
   \<and> (\<forall>f \<in> set (frames eeg_values).
         update eeg_values f = Inr (np_linspace 0 (real f) f, take f eeg_values)
         \<and> length (take f eeg_values) = f)"
proof -
  have "frames eeg_values = map Suc [0..<length eeg_values]"
    unfolding frames_upt by (simp add: map_Suc_upt)
  moreover have "set (frames eeg_values) = {1..length eeg_values}"
    unfolding frames_upt by auto
  moreover have "\<forall>f \<in> set (frames eeg_values).
         update eeg_values f = Inr (np_linspace 0 (real f) f, take f eeg_values)
         \<and> length (take f eeg_values) = f"
    unfolding frames_upt by (auto simp: update_in_range)
  ultimately show ?thesis by simp
qed

theorem animation_frames_witness:
  "frames [5, 7, 9] = [1, 2, 3]
   \<and> 2 \<in> set (frames [5, 7, 9])
   \<and> update [5, 7, 9] 2 = Inr ([0, 2], [5, 7])"
proof -
  have fr: "frames [5, 7, 9] = [1, 2, 3]"
    using animation_frames [of "[5, 7, 9]"] by (simp add: upt_rec)
  have mem: "2 \<in> set (frames [5, 7, 9])"
    by (simp add: fr)
  have "update [5, 7, 9] 2 = Inr (np_linspace 0 (real (2::nat)) 2, take 2 [5, 7, 9])"
    using animation_frames [of "[5, 7, 9]"] mem by blast
  then have "update [5, 7, 9] 2 = Inr ([0, 2], [5, 7])"
    by (simp add: np_linspace_def upt_rec numeral_2_eq_2)
  with fr mem show ?thesis by simp
qed

text \<open>
  C7. When saving the animation fails, \<open>animate\<close> returns normally: the failure is
  printed to standard output and the text widgets are left as they were. The same holds
  for \<open>create_animation\<close>, and \<open>on_button_click\<close> then returns with the mood shown in
  the two labels.
\<close>

theorem export_failure_logged:
  assumes "ani_save writer eeg_values = Inl e"
  shows "animate writer eeg_values st
           = Returned (st\<lparr>stdout := stdout st @ [''Could not save animation: '' @ str e]\<rparr>)
       \<and> create_animation writer eeg_values st
           = Returned (st\<lparr>stdout := stdout st @ [''Could not save animation: '' @ str e]\<rparr>)
       \<and> (collect (map (to_float py_float) (split_comma (eeg_input st))) = Inr eeg_values \<longrightarrow>
            on_button_click py_float writer st
              = Returned (st\<lparr>result_label := ''Mood: '' @ fst (predict_mood eeg_values),
                             network_info_label := snd (predict_mood eeg_values),
                             stdout := stdout st @ [''Could not save animation: '' @ str e]\<rparr>))"
  using assms
  by (simp add: create_animation_animate animate_def on_button_click_def split: prod.splits)

theorem export_failure_logged_witness:
  "ani_save (\<lambda>drawn. Inl (ValueError ''unknown file extension: .gif'')) [3, 3, 3]
      = Inl (ValueError ''unknown file extension: .gif'')
   \<and> collect (map (to_float (\<lambda>s. if s = ''3'' then Some 3 else None))
        (split_comma (eeg_input
           \<lparr>eeg_input = ''3,3,3'', result_label = ''Mood: '',
            network_info_label = ''Brain Network Info: '', stdout = []\<rparr>))) = Inr [3, 3, 3]
   \<and> on_button_click (\<lambda>s. if s = ''3'' then Some 3 else None)
        (\<lambda>drawn. Inl (ValueError ''unknown file extension: .gif''))
        \<lparr>eeg_input = ''3,3,3'', result_label = ''Mood: '',
         network_info_label = ''Brain Network Info: '', stdout = []\<rparr>
     = Returned \<lparr>eeg_input = ''3,3,3'', result_label = ''Mood: Happy'',
         network_info_label = ''Brain activity shows high energy, suggesting a happy mood.'',
         stdout = [''Could not save animation: unknown file extension: .gif'']\<rparr>"
proof -
  let ?writer = "\<lambda>drawn :: line2d list. Inl (ValueError ''unknown file extension: .gif'') :: py_exception + unit"
  let ?float = "\<lambda>s. if s = ''3'' then Some (3 :: real) else None"
  let ?st = "\<lparr>eeg_input = ''3,3,3'', result_label = ''Mood: '',
         network_info_label = ''Brain Network Info: '', stdout = []\<rparr>"
  have h: "ani_save ?writer [3, 3, 3] = Inl (ValueError ''unknown file extension: .gif'')"
    by (simp add: ani_save_def collect_updates)
  have p: "collect (map (to_float ?float) (split_comma (eeg_input ?st))) = Inr [3, 3, 3]"
    by (simp add: to_float_def)
  have m: "predict_mood [3, 3, 3]
             = (''Happy'', ''Brain activity shows high energy, suggesting a happy mood.'')"
    by (simp add: predict_mood_def np_mean_3_3_3)
  have "on_button_click ?float ?writer ?st
          = Returned (?st\<lparr>result_label := ''Mood: '' @ fst (predict_mood [3, 3, 3]),
                         network_info_label := snd (predict_mood [3, 3, 3]),
                         stdout := stdout ?st @ [''Could not save animation: ''
                            @ str (ValueError ''unknown file extension: .gif'')]\<rparr>)"
    using export_failure_logged [of ?writer "[3, 3, 3]" "ValueError ''unknown file extension: .gif''" ?st ?float] h p
    by blast
  then show ?thesis
    using h p by (simp add: m)
qed

subsection \<open>Manual entry\<close>

text \<open>
  C5. When some comma-separated piece of the entry is rejected by \<^verbatim>\<open>float\<close>,
  \<open>on_button_click\<close> returns normally with the two labels set to the short texts
  \<^verbatim>\<open>Invalid EEG input.\<close> and \<^verbatim>\<open>Animation failed.\<close>; no mood is shown and nothing else
  changes.
\<close>

theorem invalid_entry_reported:
  assumes "\<exists>t \<in> set (split_comma (eeg_input st)). py_float t = None"
  shows "on_button_click py_float writer st
           = Returned (st\<lparr>result_label := ''Invalid EEG input.'',
                          network_info_label := ''Animation failed.''\<rparr>)"
proof -
  obtain e where "collect (map (to_float py_float) (split_comma (eeg_input st))) = Inl e"
    using to_float_collect_Inl [OF assms] by blast
  then show ?thesis
    by (simp add: on_button_click_def invalid_input_def)
qed

theorem invalid_entry_reported_witness:
  "(\<exists>t \<in> set (split_comma (eeg_input
        \<lparr>eeg_input = ''1.5,x'', result_label = ''Mood: '',
         network_info_label = ''Brain Network Info: '', stdout = []\<rparr>)).
      (\<lambda>s. if s = ''1.5'' then Some (3 / 2) else None) t = None)
   \<and> on_button_click (\<lambda>s. if s = ''1.5'' then Some (3 / 2) else None) (\<lambda>drawn. Inr ())
        \<lparr>eeg_input = ''1.5,x'', result_label = ''Mood: '',
         network_info_label = ''Brain Network Info: '', stdout = []\<rparr>
     = Returned \<lparr>eeg_input = ''1.5,x'', result_label = ''Invalid EEG input.'',
         network_info_label = ''Animation failed.'', stdout = []\<rparr>"
proof -
  have h: "\<exists>t \<in> set (split_comma (eeg_input
        \<lparr>eeg_input = ''1.5,x'', result_label = ''Mood: '',
         network_info_label = ''Brain Network Info: '', stdout = []\<rparr>)).
      (\<lambda>s. if s = ''1.5'' then Some (3 / 2 :: real) else None) t = None"
    by simp
  show ?thesis
    using h invalid_entry_reported [OF h, of "\<lambda>drawn. Inr ()"] by simp
qed

subsection \<open>Loading a file\<close>

text \<open>
  C3. For a file that is read successfully, the values taken over are obtained by first
  leaving out of every row the cell of the column labelled \<^verbatim>\<open>label\<close>, wherever that
  column stands, then concatenating the rows in order, then keeping the first 100
  values: exactly 100 when there are more, all of them when there are at most 100.
  The entry field is set to these values, joined with commas.
\<close>

theorem load_drops_label_then_truncates:
  assumes "read_csv file_path = Inr df" and "well_formed df"
  shows "csv_values read_csv file_path
           = Inr (take 100 (concat (map (\<lambda>row. nths row {i. columns df ! i \<noteq> ''label''}) (cells df))))
       \<and> (100 < length (concat (map (\<lambda>row. nths row {i. columns df ! i \<noteq> ''label''}) (cells df))) \<longrightarrow>
            (\<exists>vals. csv_values read_csv file_path = Inr vals \<and> length vals = 100))
       \<and> (length (concat (map (\<lambda>row. nths row {i. columns df ! i \<noteq> ''label''}) (cells df))) \<le> 100 \<longrightarrow>
            csv_values read_csv file_path
              = Inr (concat (map (\<lambda>row. nths row {i. columns df ! i \<noteq> ''label''}) (cells df))))
       \<and> (file_path \<noteq> [] \<longrightarrow>
            (\<exists>vals. csv_values read_csv file_path = Inr vals
               \<and> load_csv_file file_path read_csv str_cell st
                   = Returned (st\<lparr>eeg_input := join '', '' (map str_cell vals)\<rparr>)))"
  using csv_values_read [of read_csv file_path df] assms by (simp add: load_csv_file_def)

theorem load_drops_label_then_truncates_witness:
  "(\<lambda>p. Inr \<lparr>columns = [''a'', ''label'', ''b''], cells = [[1, 9, 2], [3, 9, 4 :: nat]]\<rparr>) ''eeg.csv''
      = (Inr \<lparr>columns = [''a'', ''label'', ''b''], cells = [[1, 9, 2], [3, 9, 4]]\<rparr>
           :: py_exception + nat data_frame)
   \<and> well_formed \<lparr>columns = [''a'', ''label'', ''b''], cells = [[1, 9, 2], [3, 9, 4 :: nat]]\<rparr>
   \<and> csv_values (\<lambda>p. Inr \<lparr>columns = [''a'', ''label'', ''b''], cells = [[1, 9, 2], [3, 9, 4 :: nat]]\<rparr>)
        ''eeg.csv'' = (Inr [1, 2, 3, 4] :: py_exception + nat list)"
proof -
  let ?df = "\<lparr>columns = [''a'', ''label'', ''b''], cells = [[1, 9, 2], [3, 9, 4 :: nat]]\<rparr>"
  let ?read = "\<lambda>p :: string. Inr ?df :: py_exception + nat data_frame"
  have r: "?read ''eeg.csv'' = Inr ?df" by simp
  have w: "well_formed ?df" by (simp add: well_formed_def)
  have "csv_values ?read ''eeg.csv''
          = Inr (take 100 (concat (map (\<lambda>row. nths row {i. columns ?df ! i \<noteq> ''label''}) (cells ?df))))"
    using load_drops_label_then_truncates [of ?read "''eeg.csv''" ?df] r w by blast
  then have "csv_values ?read ''eeg.csv'' = Inr [1, 2, 3, 4]"
    by (simp add: nths_Cons)
  with w show ?thesis by simp
qed

text \<open>
  C6. When a file was selected and reading it raises, \<open>load_csv_file\<close> returns normally
  with \<^verbatim>\<open>Could not read CSV file.\<close> in one label and the text of the exception in the
  other.
\<close>

theorem read_failure_reported:
  assumes "file_path \<noteq> []" and "read_csv file_path = Inl e"
  shows "load_csv_file file_path read_csv str_cell st
           = Returned (st\<lparr>result_label := ''Could not read CSV file.'',
                          network_info_label := str e\<rparr>)"
  using assms by (simp add: load_csv_file_def csv_values_def)

theorem read_failure_reported_witness:
  "''eeg.csv'' \<noteq> []
   \<and> (\<lambda>p. Inl (OtherException ''No columns to parse from file'')) ''eeg.csv''
       = (Inl (OtherException ''No columns to parse from file'') :: py_exception + nat data_frame)
   \<and> load_csv_file ''eeg.csv''
        (\<lambda>p. Inl (OtherException ''No columns to parse from file'') :: py_exception + nat data_frame)
        (\<lambda>n. ''0'')
        \<lparr>eeg_input = ''1, 2'', result_label = ''Mood: '',
         network_info_label = ''Brain Network Info: '', stdout = []\<rparr>
     = Returned \<lparr>eeg_input = ''1, 2'', result_label = ''Could not read CSV file.'',
         network_info_label = ''No columns to parse from file'', stdout = []\<rparr>"
  using read_failure_reported [of "''eeg.csv''"
      "\<lambda>p. Inl (OtherException ''No columns to parse from file'') :: py_exception + nat data_frame"
      "OtherException ''No columns to parse from file''" "\<lambda>n. ''0''"
      "\<lparr>eeg_input = ''1, 2'', result_label = ''Mood: '',
         network_info_label = ''Brain Network Info: '', stdout = []\<rparr>"]
  by simp

text \<open>
  C10. When reading the file raises, the entry field keeps its text. More generally, the
  entry field changes only when the read, the removal of the label column and the
  truncation have all succeeded, and then it holds the joined values.
\<close>

theorem failed_load_keeps_input:
  "(read_csv file_path = Inl e \<longrightarrow>
      (\<exists>st'. load_csv_file file_path read_csv str_cell st = Returned st'
            \<and> eeg_input st' = eeg_input st))
   \<and> (\<forall>st'. load_csv_file file_path read_csv str_cell st = Returned st'
            \<and> eeg_input st' \<noteq> eeg_input st \<longrightarrow>
          (\<exists>vals. csv_values read_csv file_path = Inr vals
                \<and> eeg_input st' = join '', '' (map str_cell vals)))"
proof (intro conjI impI allI)
  assume "read_csv file_path = Inl e"
  then show "\<exists>st'. load_csv_file file_path read_csv str_cell st = Returned st'
            \<and> eeg_input st' = eeg_input st"
    by (simp add: load_csv_file_def csv_values_def)
next
  fix st'
  assume "load_csv_file file_path read_csv str_cell st = Returned st'
            \<and> eeg_input st' \<noteq> eeg_input st"
  then show "\<exists>vals. csv_values read_csv file_path = Inr vals
                \<and> eeg_input st' = join '', '' (map str_cell vals)"
    using load_csv_file_cases by blast
qed

theorem failed_load_keeps_input_witness:
  "(\<lambda>p. Inl (OtherException ''Error tokenizing data'')) ''bad.csv''
       = (Inl (OtherException ''Error tokenizing data'') :: py_exception + nat data_frame)
   \<and> (\<exists>st'. load_csv_file ''bad.csv''
                (\<lambda>p. Inl (OtherException ''Error tokenizing data'') :: py_exception + nat data_frame)
                (\<lambda>n. ''0'')
                \<lparr>eeg_input = ''0.5, 0.25'', result_label = ''Mood: Neutral'',
                 network_info_label = ''Balanced activity, likely a neutral mood.'',
                 stdout = []\<rparr> = Returned st'
            \<and> eeg_input st' = ''0.5, 0.25'')"
  using failed_load_keeps_input [of
      "\<lambda>p. Inl (OtherException ''Error tokenizing data'') :: py_exception + nat data_frame"
      "''bad.csv''" "OtherException ''Error tokenizing data''" "\<lambda>n. ''0''"
      "\<lparr>eeg_input = ''0.5, 0.25'', result_label = ''Mood: Neutral'',
        network_info_label = ''Balanced activity, likely a neutral mood.'', stdout = []\<rparr>"]
  by simp

end
